theory Spec2Isabelle
  imports Complex_Main
begin

section \<open>Data model and operations\<close>

subsection \<open>PriorityQueue (scraper/src/utils/priority-queue.ts)\<close>

text \<open>
  A queue node pairs the payload with its priority number. Priorities are JavaScript
  numbers used as integer levels (lower number = served first); they are modelled as
  \<open>int\<close>. The capacity \<open>maxSize\<close> and the length of \<open>items\<close> are counts.
\<close>

record 'a QueueNode =
  data :: 'a
  priority :: int

record 'a PriorityQueue =
  items :: "'a QueueNode list"
  maxSize :: nat

datatype queue_error = QueueFull  \<comment> \<open>\<open>throw new Error('Queue is full')\<close>\<close>

definition new_queue :: "nat \<Rightarrow> 'a PriorityQueue" where
  "new_queue n = \<lparr>items = [], maxSize = n\<rparr>"

text \<open>
  The \<open>for\<close> loop of \<open>enqueue\<close>: the node is spliced in before the first element whose
  priority is strictly greater; when the scan finds none, the node is pushed at the end.
\<close>

fun insert_node :: "'a QueueNode \<Rightarrow> 'a QueueNode list \<Rightarrow> 'a QueueNode list" where
  "insert_node node [] = [node]"
| "insert_node node (x # xs) =
     (if priority x > priority node then node # x # xs else x # insert_node node xs)"

definition isEmpty :: "'a PriorityQueue \<Rightarrow> bool" where
  "isEmpty q = (length (items q) = 0)"


definition size_q :: "'a PriorityQueue \<Rightarrow> nat" where
  "size_q q = length (items q)"

text \<open>
  \<open>enqueue\<close> returns the outcome together with the queue afterwards; the throw happens
  before any mutation.
\<close>

definition enqueue :: "'a PriorityQueue \<Rightarrow> 'a \<Rightarrow> int \<Rightarrow> (queue_error + unit) \<times> 'a PriorityQueue" where
  "enqueue q d p =
     (if length (items q) \<ge> maxSize q then (Inl QueueFull, q)
      else (Inr (), q\<lparr>items := insert_node \<lparr>data = d, priority = p\<rparr> (items q)\<rparr>))"

definition dequeue :: "'a PriorityQueue \<Rightarrow> 'a option \<times> 'a PriorityQueue" where
  "dequeue q =
     (if isEmpty q then (None, q)
      else (Some (data (hd (items q))), q\<lparr>items := tl (items q)\<rparr>))"

definition peek :: "'a PriorityQueue \<Rightarrow> 'a option" where
  "peek q = (if isEmpty q then None else Some (data (hd (items q))))"



text \<open>Sequences of queue operations, run from any queue; a failed enqueue is caught by the caller.\<close>

datatype 'a queue_op = Enq 'a int | Deq

fun apply_op :: "'a PriorityQueue \<Rightarrow> 'a queue_op \<Rightarrow> 'a PriorityQueue" where
  "apply_op q (Enq d p) = snd (enqueue q d p)"
| "apply_op q Deq = snd (dequeue q)"

definition run_ops :: "'a PriorityQueue \<Rightarrow> 'a queue_op list \<Rightarrow> 'a PriorityQueue" where
  "run_ops q ops = foldl apply_op q ops"

definition by_priority :: "'a QueueNode list \<Rightarrow> bool" where
  "by_priority xs = sorted (map priority xs)"

text \<open>
  What \<open>dequeue\<close> is to do on a queue \<open>q\<close>: on the empty queue it returns nothing and
  changes nothing; otherwise it returns the payload of some queued entry whose priority
  number is least among all queued entries, and removes that entry.
\<close>

definition dequeue_takes_minimum :: "'a PriorityQueue \<Rightarrow> bool" where
  "dequeue_takes_minimum q =
     (if items q = [] then dequeue q = (None, q)
      else (\<exists>node \<in> set (items q).
              fst (dequeue q) = Some (data node)
              \<and> snd (dequeue q) = q\<lparr>items := remove1 node (items q)\<rparr>
              \<and> (\<forall>m \<in> set (items q). priority node \<le> priority m)))"

subsection \<open>UrlManager, the URL frontier (scraper/src/core/url-manager.ts)\<close>

text \<open>
  \<open>new URL(url)\<close> is the platform's URL parser. It is a parameter of the model: it
  either fails (the \<open>TypeError\<close> that \<open>normalizeUrl\<close> catches) or yields the parts of
  the URL, of which \<open>normalizeUrl\<close> reads \<open>origin\<close> and \<open>pathname\<close>, and the crawler
  \<open>hostname\<close>.
\<close>

record url_parts =
  origin :: string
  hostname :: string
  pathname :: string
  search :: string
  hash :: string

type_synonym url_parser = "string \<Rightarrow> url_parts option"

text \<open>\<open>s.replace(/\/$/, '')\<close>: one slash is removed when it is the last character.\<close>

definition strip_trailing_slash :: "string \<Rightarrow> string" where
  "strip_trailing_slash s = (if s \<noteq> [] \<and> last s = CHR ''/'' then butlast s else s)"

definition normalizeUrl :: "url_parser \<Rightarrow> string \<Rightarrow> string" where
  "normalizeUrl parse url =
     (case parse url of
        Some parsed \<Rightarrow> origin parsed @ strip_trailing_slash (pathname parsed)
      | None \<Rightarrow> url)"

record QueueConfig =
  cfg_maxSize :: nat
  priorityLevels :: nat
  deduplicationWindow :: nat

record UrlManager =
  queue :: "string PriorityQueue"
  visited :: "string set"
  config :: QueueConfig

definition new_UrlManager :: "QueueConfig \<Rightarrow> UrlManager" where
  "new_UrlManager c = \<lparr>queue = new_queue (cfg_maxSize c), visited = {}, config = c\<rparr>"

definition shouldEnqueue :: "url_parser \<Rightarrow> UrlManager \<Rightarrow> string \<Rightarrow> bool" where
  "shouldEnqueue parse um url =
     (normalizeUrl parse url \<notin> visited um \<and> size_q (queue um) < cfg_maxSize (config um))"

text \<open>
  \<open>UrlManager.enqueue(url, priority = 1)\<close>, as a call that is awaited before anything
  else touches the frontier. The queue receives the string as given; the visited set
  receives the normalized key. An error of the inner \<open>enqueue\<close> would propagate
  before the key is recorded.
\<close>

definition enqueue_url ::
  "url_parser \<Rightarrow> UrlManager \<Rightarrow> string \<Rightarrow> int \<Rightarrow> (queue_error + unit) \<times> UrlManager" where
  "enqueue_url parse um url p =
     (if shouldEnqueue parse um url then
        (case enqueue (queue um) url p of
           (Inl e, q') \<Rightarrow> (Inl e, um\<lparr>queue := q'\<rparr>)
         | (Inr _, q') \<Rightarrow>
             (Inr (), um\<lparr>queue := q', visited := insert (normalizeUrl parse url) (visited um)\<rparr>))
      else (Inr (), um))"

definition dequeue_url :: "UrlManager \<Rightarrow> string option \<times> UrlManager" where
  "dequeue_url um = (case dequeue (queue um) of (r, q') \<Rightarrow> (r, um\<lparr>queue := q'\<rparr>))"



definition isVisited :: "url_parser \<Rightarrow> UrlManager \<Rightarrow> string \<Rightarrow> bool" where
  "isVisited parse um url = (normalizeUrl parse url \<in> visited um)"

text \<open>
  A small parser for URLs of the shape \<open>scheme://host/path?query#fragment\<close>, standing
  in for the platform's parser when the model is run on concrete URLs: the origin is
  \<open>scheme://host\<close>, an empty path reads as \<open>/\<close>, anything else fails to parse.
\<close>

definition parse_simple_url :: url_parser where
  "parse_simple_url u =
     (let scheme = takeWhile (\<lambda>c. c \<noteq> CHR '':'') u;
          rest = dropWhile (\<lambda>c. c \<noteq> CHR '':'') u;
          r = drop 3 rest;
          host = takeWhile (\<lambda>c. c \<noteq> CHR ''/'' \<and> c \<noteq> CHR ''?'' \<and> c \<noteq> CHR ''#'') r;
          r1 = dropWhile (\<lambda>c. c \<noteq> CHR ''/'' \<and> c \<noteq> CHR ''?'' \<and> c \<noteq> CHR ''#'') r;
          path = takeWhile (\<lambda>c. c \<noteq> CHR ''?'' \<and> c \<noteq> CHR ''#'') r1;
          r2 = dropWhile (\<lambda>c. c \<noteq> CHR ''?'' \<and> c \<noteq> CHR ''#'') r1
      in if scheme = [] then None
         else if take 3 rest \<noteq> ''://'' then None
         else if host = [] then None
         else Some \<lparr>origin = scheme @ ''://'' @ host,
                    hostname = takeWhile (\<lambda>c. c \<noteq> CHR '':'') host,
                    pathname = (if path = [] then ''/'' else path),
                    search = takeWhile (\<lambda>c. c \<noteq> CHR ''#'') r2,
                    hash = dropWhile (\<lambda>c. c \<noteq> CHR ''#'') r2\<rparr>)"

subsection \<open>JobManager, the job scheduler (scraper/src/core/url-manager.ts, scraper/src/types/index.ts)\<close>

datatype task_state = TsPending | TsProcessing | TsCompleted | TsFailed

datatype job_state = StRunning | StCompleted | StFailed | StPaused

record CrawlTask =
  t_id :: string
  t_url :: string
  t_priority :: int
  retryCount :: nat
  maxRetries :: nat
  t_status :: task_state
  t_timestamp :: string

record JobStatus =
  j_id :: string
  tasks :: "CrawlTask list"
  completedTasks :: nat
  failedTasks :: nat
  startTime :: string
  endTime :: "string option"
  j_status :: job_state

datatype event =
    EvJobCompleted JobStatus
  | EvJobPaused string
  | EvJobResumed string
  | EvJobCancelled string
  | EvTaskUpdated CrawlTask

text \<open>
  Where the processing loop of \<open>startProcessing\<close> is suspended: not running; at
  \<open>await this.urlManager.dequeue()\<close> with the value that the call has already taken
  from the queue; in \<open>sleep(1000)\<close>; or inside \<open>processTask\<close> at the awaits of the
  crawl, parse and store pipeline of one task.
\<close>

datatype loop_pc = LoopIdle | LoopDequeued "string option" | LoopSleeping | LoopInTask string

text \<open>
  \<open>activeJobs\<close> is a \<open>Map\<close> in which \<open>startJob\<close> stores every job under the job's own
  id: it is the list of jobs in insertion order. \<open>emitted\<close> is the sequence of events
  emitted so far. A task object is referred to by its id, which is generated once per
  task and by which the source itself finds tasks (\<open>findJobByTask\<close>, \<open>updateTask\<close>);
  a write to a task object is a write to the first task of that id in the table.
\<close>

record JobManager =
  urlManager :: UrlManager
  activeJobs :: "JobStatus list"
  isRunning :: bool
  loop :: loop_pc
  emitted :: "event list"

definition new_JobManager :: "UrlManager \<Rightarrow> JobManager" where
  "new_JobManager um =
     \<lparr>urlManager = um, activeJobs = [], isRunning = False, loop = LoopIdle, emitted = []\<rparr>"

fun upd_first :: "('a \<Rightarrow> bool) \<Rightarrow> ('a \<Rightarrow> 'a) \<Rightarrow> 'a list \<Rightarrow> 'a list" where
  "upd_first P f [] = []"
| "upd_first P f (x # xs) = (if P x then f x # xs else x # upd_first P f xs)"

definition get_job :: "JobStatus list \<Rightarrow> string \<Rightarrow> JobStatus option" where
  "get_job jobs jobId = find (\<lambda>j. j_id j = jobId) jobs"

definition put_job :: "JobStatus \<Rightarrow> JobStatus list \<Rightarrow> JobStatus list" where
  "put_job job jobs =
     (if list_ex (\<lambda>j. j_id j = j_id job) jobs
      then upd_first (\<lambda>j. j_id j = j_id job) (\<lambda>_. job) jobs
      else jobs @ [job])"

definition emit :: "event \<Rightarrow> JobManager \<Rightarrow> JobManager" where
  "emit e st = st\<lparr>emitted := emitted st @ [e]\<rparr>"

definition getJobStatus :: "JobManager \<Rightarrow> string \<Rightarrow> JobStatus option" where
  "getJobStatus st jobId = get_job (activeJobs st) jobId"

definition findJobByTask :: "JobManager \<Rightarrow> string \<Rightarrow> JobStatus option" where
  "findJobByTask st tid = find (\<lambda>j. list_ex (\<lambda>t. t_id t = tid) (tasks j)) (activeJobs st)"

definition lookup_task :: "JobManager \<Rightarrow> string \<Rightarrow> CrawlTask option" where
  "lookup_task st tid =
     (case findJobByTask st tid of
        None \<Rightarrow> None
      | Some job \<Rightarrow> find (\<lambda>t. t_id t = tid) (tasks job))"

definition mutate_task :: "string \<Rightarrow> (CrawlTask \<Rightarrow> CrawlTask) \<Rightarrow> JobManager \<Rightarrow> JobManager" where
  "mutate_task tid f st =
     st\<lparr>activeJobs :=
          upd_first (\<lambda>j. list_ex (\<lambda>t. t_id t = tid) (tasks j))
            (\<lambda>j. j\<lparr>tasks := upd_first (\<lambda>t. t_id t = tid) f (tasks j)\<rparr>) (activeJobs st)\<rparr>"

fun findTaskByUrl_in :: "JobStatus list \<Rightarrow> string \<Rightarrow> CrawlTask option" where
  "findTaskByUrl_in [] url = None"
| "findTaskByUrl_in (job # jobs) url =
     (case find (\<lambda>t. t_url t = url \<and> t_status t = TsPending) (tasks job) of
        Some task \<Rightarrow> Some task
      | None \<Rightarrow> findTaskByUrl_in jobs url)"

definition findTaskByUrl :: "JobManager \<Rightarrow> string \<Rightarrow> CrawlTask option" where
  "findTaskByUrl st url = findTaskByUrl_in (activeJobs st) url"

definition isJobPaused :: "JobManager \<Rightarrow> string \<Rightarrow> bool" where
  "isJobPaused st tid =
     (case findJobByTask st tid of None \<Rightarrow> False | Some job \<Rightarrow> j_status job = StPaused)"

definition hasActiveTasks :: "JobManager \<Rightarrow> bool" where
  "hasActiveTasks st =
     list_ex (\<lambda>job. j_status job = StRunning
                  \<and> completedTasks job + failedTasks job < length (tasks job)) (activeJobs st)"

text \<open>
  \<open>updateTask\<close>: the job and the index are found by the task's id, the slot is assigned
  the task object it already holds, and \<open>taskUpdated\<close> is emitted with the task.
\<close>

definition updateTask :: "JobManager \<Rightarrow> string \<Rightarrow> JobManager" where
  "updateTask st tid =
     (case lookup_task st tid of
        None \<Rightarrow> st
      | Some task \<Rightarrow> emit (EvTaskUpdated task) st)"

definition updateTaskCompletion :: "JobManager \<Rightarrow> string \<Rightarrow> bool \<Rightarrow> string \<Rightarrow> JobManager" where
  "updateTaskCompletion st tid success now =
     (case findJobByTask st tid of
        None \<Rightarrow> st
      | Some job \<Rightarrow>
          let job1 = (if success then job\<lparr>completedTasks := completedTasks job + 1\<rparr>
                      else job\<lparr>failedTasks := failedTasks job + 1\<rparr>)
          in if completedTasks job1 + failedTasks job1 = length (tasks job1)
             then let job2 = job1\<lparr>j_status := (if failedTasks job1 = 0 then StCompleted else StFailed),
                                 endTime := Some now\<rparr>
                  in emit (EvJobCompleted job2) (st\<lparr>activeJobs := put_job job2 (activeJobs st)\<rparr>)
             else st\<lparr>activeJobs := put_job job1 (activeJobs st)\<rparr>)"

text \<open>
  \<open>processTask\<close> up to its first await: the task is marked as processing and announced.
\<close>

definition processTask_begin :: "JobManager \<Rightarrow> string \<Rightarrow> JobManager" where
  "processTask_begin st tid =
     updateTask (mutate_task tid (\<lambda>t. t\<lparr>t_status := TsProcessing\<rparr>) st) tid"

text \<open>
  \<open>processTask\<close> from the moment the pipeline (crawl, parse, store) has either run
  through (\<open>ok\<close>) or thrown at one of its stages. An error thrown by the frontier's
  \<open>enqueue\<close> inside the \<open>catch\<close> block leaves \<open>processTask\<close> before the last
  \<open>updateTask\<close>.
\<close>

definition processTask_end ::
  "url_parser \<Rightarrow> JobManager \<Rightarrow> string \<Rightarrow> bool \<Rightarrow> string \<Rightarrow> (queue_error + unit) \<times> JobManager" where
  "processTask_end parse st tid ok now =
     (if ok then
        (Inr (), updateTask
                   (updateTaskCompletion (mutate_task tid (\<lambda>t. t\<lparr>t_status := TsCompleted\<rparr>) st) tid True now) tid)
      else
        (case lookup_task st tid of
           None \<Rightarrow> (Inr (), st)
         | Some task \<Rightarrow>
             if retryCount task < maxRetries task then
               (let st1 = mutate_task tid (\<lambda>t. t\<lparr>retryCount := retryCount t + 1, t_status := TsPending\<rparr>) st
                in case enqueue_url parse (urlManager st1) (t_url task) (t_priority task) of
                     (Inl e, um') \<Rightarrow> (Inl e, st1\<lparr>urlManager := um'\<rparr>)
                   | (Inr _, um') \<Rightarrow> (Inr (), updateTask (st1\<lparr>urlManager := um'\<rparr>) tid))
             else
               (Inr (), updateTask
                          (updateTaskCompletion (mutate_task tid (\<lambda>t. t\<lparr>t_status := TsFailed\<rparr>) st) tid False now) tid)))"

text \<open>
  The head of the \<open>while\<close> loop, run without suspension: when no running job has an
  unresolved task the loop ends and clears \<open>isRunning\<close>; otherwise the call of
  \<open>dequeue\<close> takes the next URL off the frontier before the loop suspends.
\<close>

definition loop_head :: "JobManager \<Rightarrow> JobManager" where
  "loop_head st =
     (if hasActiveTasks st then
        (case dequeue_url (urlManager st) of
           (r, um') \<Rightarrow> st\<lparr>urlManager := um', loop := LoopDequeued r\<rparr>)
      else st\<lparr>isRunning := False, loop := LoopIdle\<rparr>)"

definition startProcessing :: "JobManager \<Rightarrow> JobManager" where
  "startProcessing st = loop_head (st\<lparr>isRunning := True\<rparr>)"

text \<open>
  The loop resumed after \<open>await dequeue()\<close> or after a sleep. A URL with no pending
  task, or whose task belongs to a paused job, is dropped and the loop goes round.
\<close>

definition loop_resume :: "JobManager \<Rightarrow> JobManager" where
  "loop_resume st =
     (case loop st of
        LoopDequeued None \<Rightarrow> st\<lparr>loop := LoopSleeping\<rparr>
      | LoopDequeued (Some url) \<Rightarrow>
          (case findTaskByUrl st url of
             None \<Rightarrow> loop_head st
           | Some task \<Rightarrow>
               if isJobPaused st (t_id task) then loop_head st
               else (processTask_begin st (t_id task))\<lparr>loop := LoopInTask (t_id task)\<rparr>)
      | LoopSleeping \<Rightarrow> loop_head st
      | _ \<Rightarrow> st)"

text \<open>The loop resumed when the pipeline of the task in flight has settled.\<close>

definition loop_task_done :: "url_parser \<Rightarrow> JobManager \<Rightarrow> bool \<Rightarrow> string \<Rightarrow> JobManager" where
  "loop_task_done parse st ok now =
     (case loop st of
        LoopInTask tid \<Rightarrow>
          (case processTask_end parse st tid ok now of
             (Inl e, st') \<Rightarrow> st'\<lparr>loop := LoopSleeping\<rparr>
           | (Inr _, st') \<Rightarrow> loop_head st')
      | _ \<Rightarrow> st)"

text \<open>
  \<open>startJob(urls, priority = 1)\<close>. The job id, the task ids (one per URL) and the
  timestamp come from the clock and the random generator; they are arguments here.
  \<open>Promise.all\<close> over \<open>tasks.map(task => enqueue(...))\<close> runs every call of the
  frontier's \<open>enqueue\<close> up to its await, which is after the insertion into the queue,
  before any of the calls records its key in the visited set. A call whose insertion
  throws records no key and makes \<open>startJob\<close> fail, after the job has been stored and
  before the loop is started.
\<close>

fun enqueue_all_sync ::
  "url_parser \<Rightarrow> UrlManager \<Rightarrow> CrawlTask list \<Rightarrow> UrlManager \<times> string list \<times> bool" where
  "enqueue_all_sync parse um [] = (um, [], False)"
| "enqueue_all_sync parse um (t # ts) =
     (if shouldEnqueue parse um (t_url t) then
        (case enqueue (queue um) (t_url t) (t_priority t) of
           (Inl e, q') \<Rightarrow>
             (case enqueue_all_sync parse (um\<lparr>queue := q'\<rparr>) ts of
                (um', keys, rejected) \<Rightarrow> (um', keys, True))
         | (Inr _, q') \<Rightarrow>
             (case enqueue_all_sync parse (um\<lparr>queue := q'\<rparr>) ts of
                (um', keys, rejected) \<Rightarrow> (um', normalizeUrl parse (t_url t) # keys, rejected)))
      else enqueue_all_sync parse um ts)"

definition startJob ::
  "url_parser \<Rightarrow> JobManager \<Rightarrow> string list \<Rightarrow> int \<Rightarrow> string \<Rightarrow> string list \<Rightarrow> string \<Rightarrow>
   (queue_error + string) \<times> JobManager" where
  "startJob parse st urls p jobId taskIds now =
     (let tasks0 = map (\<lambda>(tid, u). \<lparr>t_id = tid, t_url = u, t_priority = p, retryCount = 0,
                                     maxRetries = 3, t_status = TsPending, t_timestamp = now\<rparr>)
                       (zip taskIds urls);
          job = \<lparr>j_id = jobId, tasks = tasks0, completedTasks = 0, failedTasks = 0,
                 startTime = now, endTime = None, j_status = StRunning\<rparr>;
          st1 = st\<lparr>activeJobs := put_job job (activeJobs st)\<rparr>
      in case enqueue_all_sync parse (urlManager st1) tasks0 of
           (um', keys, rejected) \<Rightarrow>
             let st2 = st1\<lparr>urlManager := um'\<lparr>visited := visited um' \<union> set keys\<rparr>\<rparr>
             in if rejected then (Inl QueueFull, st2)
                else (Inr jobId, if \<not> isRunning st2 then startProcessing st2 else st2))"

definition pauseJob :: "JobManager \<Rightarrow> string \<Rightarrow> JobManager" where
  "pauseJob st jobId =
     (case get_job (activeJobs st) jobId of
        None \<Rightarrow> st
      | Some job \<Rightarrow>
          if j_status job = StRunning
          then emit (EvJobPaused jobId) (st\<lparr>activeJobs := put_job (job\<lparr>j_status := StPaused\<rparr>) (activeJobs st)\<rparr>)
          else st)"

definition resumeJob :: "JobManager \<Rightarrow> string \<Rightarrow> JobManager" where
  "resumeJob st jobId =
     (case get_job (activeJobs st) jobId of
        None \<Rightarrow> st
      | Some job \<Rightarrow>
          if j_status job = StPaused
          then (let st1 = st\<lparr>activeJobs := put_job (job\<lparr>j_status := StRunning\<rparr>) (activeJobs st)\<rparr>;
                    st2 = (if \<not> isRunning st1 then startProcessing st1 else st1)
                in emit (EvJobResumed jobId) st2)
          else st)"

definition cancelJob :: "JobManager \<Rightarrow> string \<Rightarrow> string \<Rightarrow> JobManager" where
  "cancelJob st jobId now =
     (case get_job (activeJobs st) jobId of
        None \<Rightarrow> st
      | Some job \<Rightarrow>
          emit (EvJobCancelled jobId)
            (st\<lparr>activeJobs := put_job (job\<lparr>j_status := StFailed, endTime := Some now\<rparr>) (activeJobs st)\<rparr>))"


text \<open>
  A concrete run used to evaluate the scheduler: one job with the single URL
  \<open>https://a.test\<close> is started on a new manager (the loop starts and takes the URL off
  the frontier), the loop picks the task up, and then either the job is cancelled while
  the task is in flight and the task completes afterwards, or the pipeline fails once.
\<close>

definition demo_config :: QueueConfig where
  "demo_config = \<lparr>cfg_maxSize = 100, priorityLevels = 3, deduplicationWindow = 1000\<rparr>"

definition demo_started :: JobManager where
  "demo_started =
     snd (startJob parse_simple_url (new_JobManager (new_UrlManager demo_config))
            [''https://a.test''] 1 ''job-1'' [''task-1''] ''t0'')"

definition demo_in_flight :: JobManager where
  "demo_in_flight = loop_resume demo_started"

definition demo_cancelled :: JobManager where
  "demo_cancelled = cancelJob demo_in_flight ''job-1'' ''t1''"

definition demo_late_completion :: JobManager where
  "demo_late_completion = loop_task_done parse_simple_url demo_cancelled True ''t2''"

definition demo_failed_once :: JobManager where
  "demo_failed_once = loop_task_done parse_simple_url demo_in_flight False ''t2''"

text \<open>
  A second run: a job with two URLs is started, the loop picks up the task of the first
  URL, and the job is cancelled while that task is in flight.
\<close>

definition pair_in_flight :: JobManager where
  "pair_in_flight =
     loop_resume (snd (startJob parse_simple_url (new_JobManager (new_UrlManager demo_config))
                         [''https://a.test'', ''https://b.test''] 1 ''job-2''
                         [''task-1'', ''task-2''] ''t0''))"

definition pair_cancelled :: JobManager where
  "pair_cancelled = cancelJob pair_in_flight ''job-2'' ''t1''"

subsection \<open>Crawler, the fetcher (scraper/src/core/crawler.ts)\<close>

record CrawlerConfig =
  maxConcurrentRequests :: nat
  requestTimeout :: nat
  retryAttempts :: int
  retryDelay :: int
  userAgent :: string

record PolicyConfig =
  rateLimits :: "string \<Rightarrow> nat option"
  robotsTxtEnforcement :: bool
  crawlDelay :: nat

text \<open>
  What the code reads of a thrown value: \<open>error.code\<close>, \<open>error.response\<close> with its
  \<open>status\<close> and \<open>statusText\<close>, and the message.
\<close>

datatype err_message = Msg string | HttpMsg int string  \<comment> \<open>\<open>`HTTP ${status}: ${statusText}`\<close>\<close>

record js_error =
  err_code :: "string option"
  err_response :: "(int \<times> string) option"
  err_message :: err_message

record http_response =
  resp_status :: int
  resp_statusText :: string
  resp_data :: string
  resp_headers :: "(string \<times> string) list"

datatype http_outcome = Resolved http_response | Rejected js_error

text \<open>
  The HTTP client is the axios instance created in the constructor with
  \<open>validateStatus: (status) => status < 500\<close>: axios resolves the request when the
  server's status satisfies \<open>validateStatus\<close>, and rejects it with an error carrying
  the response otherwise, or with an error carrying a code when no response arrived.
\<close>

datatype raw_http = ServerReply http_response | NetworkFailure string

definition validateStatus :: "int \<Rightarrow> bool" where
  "validateStatus status = (status < 500)"

definition axios_settle :: "raw_http \<Rightarrow> http_outcome" where
  "axios_settle raw =
     (case raw of
        ServerReply r \<Rightarrow>
          if validateStatus (resp_status r) then Resolved r
          else Rejected \<lparr>err_code = Some ''ERR_BAD_RESPONSE'',
                          err_response = Some (resp_status r, resp_statusText r),
                          err_message = Msg ''Request failed''\<rparr>
      | NetworkFailure c \<Rightarrow>
          Rejected \<lparr>err_code = Some c, err_response = None, err_message = Msg c\<rparr>)"

record crawl_metadata =
  contentType :: "string option"
  contentLength :: "string option"
  lastModified :: "string option"

record CrawlResult =
  cr_url :: string
  content :: string
  statusCode :: int
  headers :: "(string \<times> string) list"
  cr_timestamp :: string
  metadata :: crawl_metadata

text \<open>
  The surroundings of one call of \<open>crawl\<close>: the URL parser, the answer of
  \<open>robotsParser.isAllowed\<close> at its k-th consultation, the settlement of the k-th request
  made through the HTTP client, and the clock reading put into results. The trace
  records what the crawler has done: the robots consultations, the domains for which a
  rate-limiter token was acquired, the HTTP requests made, and the delays slept.
\<close>

record crawl_env =
  url_parse :: url_parser
  robots_answer :: "nat \<Rightarrow> bool"
  client :: "nat \<Rightarrow> http_outcome"
  now_iso :: string

record crawl_trace =
  robots_checks :: nat
  acquired :: "string list"
  http_calls :: nat
  slept :: "int list"

definition trace0 :: crawl_trace where
  "trace0 = \<lparr>robots_checks = 0, acquired = [], http_calls = 0, slept = []\<rparr>"

definition invalid_url_error :: js_error where
  "invalid_url_error = \<lparr>err_code = Some ''ERR_INVALID_URL'', err_response = None, err_message = Msg ''Invalid URL''\<rparr>"

definition robots_error :: js_error where
  "robots_error = \<lparr>err_code = None, err_response = None, err_message = Msg ''URL not allowed by robots.txt''\<rparr>"

definition isRetryableError :: "js_error \<Rightarrow> bool" where
  "isRetryableError error =
     (err_code error = Some ''ECONNRESET'' \<or>
      err_code error = Some ''ETIMEDOUT'' \<or>
      err_code error = Some ''ECONNREFUSED'' \<or>
      (case err_response error of None \<Rightarrow> False | Some (status, _) \<Rightarrow> status \<ge> 500))"

definition normalizeError :: "js_error \<Rightarrow> js_error" where
  "normalizeError error =
     (case err_response error of
        Some (status, statusText) \<Rightarrow>
          \<lparr>err_code = None, err_response = None, err_message = HttpMsg status statusText\<rparr>
      | None \<Rightarrow> error)"

definition getRetryDelay :: "CrawlerConfig \<Rightarrow> int \<Rightarrow> int" where
  "getRetryDelay cfg retries = min (retryDelay cfg * 2 ^ nat retries) 30000"

text \<open>
  The \<open>try\<close> block of \<open>crawl\<close>: the robots check when enforcement is on
  (\<open>isAllowed\<close> parses the URL before it answers), the host name of the URL, a
  rate-limiter token for it, the GET request, and the result built from the response.
  A URL that does not parse makes \<open>new URL\<close> throw.
\<close>

definition crawl_try ::
  "PolicyConfig \<Rightarrow> crawl_env \<Rightarrow> string \<Rightarrow> crawl_trace \<Rightarrow> (js_error + CrawlResult) \<times> crawl_trace" where
  "crawl_try pol env url tr =
     (let checked = robotsTxtEnforcement pol;
          tr1 = (if checked then tr\<lparr>robots_checks := robots_checks tr + 1\<rparr> else tr)
      in case url_parse env url of
           None \<Rightarrow> (Inl invalid_url_error, tr1)
         | Some parsed \<Rightarrow>
             if checked \<and> \<not> robots_answer env (robots_checks tr) then (Inl robots_error, tr1)
             else
               let tr2 = tr1\<lparr>acquired := acquired tr1 @ [hostname parsed]\<rparr>;
                   tr3 = tr2\<lparr>http_calls := http_calls tr2 + 1\<rparr>
               in case client env (http_calls tr2) of
                    Rejected e \<Rightarrow> (Inl e, tr3)
                  | Resolved response \<Rightarrow>
                      (Inr \<lparr>cr_url = url,
                            content = resp_data response,
                            statusCode = resp_status response,
                            headers = resp_headers response,
                            cr_timestamp = now_iso env,
                            metadata = \<lparr>contentType = map_of (resp_headers response) ''content-type'',
                                        contentLength = map_of (resp_headers response) ''content-length'',
                                        lastModified = map_of (resp_headers response) ''last-modified''\<rparr>\<rparr>,
                       tr3))"

text \<open>
  \<open>handleRetry\<close>: the \<open>while\<close> loop with its counter \<open>retryCount\<close>, here \<open>retries\<close>. The loop calls \<open>crawl\<close> again,
  which is passed in as \<open>recur\<close>; \<open>None\<close> stands for a call that has not returned.
\<close>

function handleRetry ::
  "(crawl_trace \<Rightarrow> (js_error + CrawlResult) option \<times> crawl_trace) \<Rightarrow> CrawlerConfig \<Rightarrow>
   int \<Rightarrow> js_error \<Rightarrow> crawl_trace \<Rightarrow> (js_error + CrawlResult) option \<times> crawl_trace" where
  "handleRetry recur cfg retries lastError tr =
     (if retries < retryAttempts cfg then
        (case recur (tr\<lparr>slept := slept tr @ [getRetryDelay cfg retries]\<rparr>) of
           (None, tr') \<Rightarrow> (None, tr')
         | (Some (Inr result), tr') \<Rightarrow> (Some (Inr result), tr')
         | (Some (Inl err), tr') \<Rightarrow> handleRetry recur cfg (retries + 1) err tr')
      else (Some (Inl (normalizeError lastError)), tr))"
  by pat_completeness auto
termination
  by (relation "measure (\<lambda>(recur, cfg, retries, lastError, tr). nat (retryAttempts cfg - retries))") auto

text \<open>
  \<open>crawl\<close>, with a bound on the depth of its recursion through \<open>handleRetry\<close>: a
  retryable error of the \<open>try\<close> block hands over to \<open>handleRetry\<close>, any other is
  normalized and thrown. With no depth left the call has not returned.
\<close>

fun crawl ::
  "nat \<Rightarrow> CrawlerConfig \<Rightarrow> PolicyConfig \<Rightarrow> crawl_env \<Rightarrow> string \<Rightarrow> crawl_trace \<Rightarrow>
   (js_error + CrawlResult) option \<times> crawl_trace" where
  "crawl 0 cfg pol env url tr = (None, tr)"
| "crawl (Suc n) cfg pol env url tr =
     (case crawl_try pol env url tr of
        (Inr result, tr') \<Rightarrow> (Some (Inr result), tr')
      | (Inl error, tr') \<Rightarrow>
          if isRetryableError error
          then handleRetry (\<lambda>t. crawl n cfg pol env url t) cfg 0 error tr'
          else (Some (Inl (normalizeError error)), tr'))"

text \<open>
  Settings for concrete runs: the configuration of the crawler's test suite, a client
  that answers every request of a server with the same raw outcome.
\<close>

definition test_config :: CrawlerConfig where
  "test_config = \<lparr>maxConcurrentRequests = 2, requestTimeout = 5000, retryAttempts = 3,
                   retryDelay = 1000, userAgent = ''TestBot/1.0''\<rparr>"

definition test_policy :: PolicyConfig where
  "test_policy = \<lparr>rateLimits = Map.empty, robotsTxtEnforcement = True, crawlDelay = 1000\<rparr>"

definition env_server :: "raw_http \<Rightarrow> crawl_env" where
  "env_server raw = \<lparr>url_parse = parse_simple_url, robots_answer = (\<lambda>k. True),
                      client = (\<lambda>k. axios_settle raw), now_iso = ''2024-02-21T00:00:00.000Z''\<rparr>"

definition reply_404 :: raw_http where
  "reply_404 = ServerReply \<lparr>resp_status = 404, resp_statusText = ''Not Found'',
                            resp_data = ''missing'', resp_headers = [(''content-type'', ''text/html'')]\<rparr>"

subsection \<open>RobotsParser, the robots rules (scraper/src/utils/priority-queue.ts)\<close>

record RobotsRule =
  pattern :: string
  allow :: bool

text \<open>\<open>s.replace(/c/g, rep)\<close> for a single character \<open>c\<close> and a literal replacement.\<close>

definition replace_all :: "char \<Rightarrow> string \<Rightarrow> string \<Rightarrow> string" where
  "replace_all c rep s = concat (map (\<lambda>x. if x = c then rep else [x]) s)"

text \<open>
  The source text of the regular expression that \<open>matchesPattern\<close> builds: the four
  replacements in the order of the code (star, question mark, dollar, dot), between
  \<open>^\<close> and \<open>.*$\<close>. The backslash is \<open>CHR 0x5C\<close>.
\<close>

definition pattern_regex_source :: "string \<Rightarrow> string" where
  "pattern_regex_source pat =
     ''^'' @
     replace_all (CHR ''.'') [CHR 0x5C, CHR ''.'']
       (replace_all (CHR ''$'') [CHR 0x5C, CHR ''$'']
         (replace_all (CHR ''?'') [CHR 0x5C, CHR ''?'']
           (replace_all (CHR ''*'') ''.*'' pat)))
     @ ''.*$''"

text \<open>
  The fragment of JavaScript regular expressions that such sources fall into when the
  pattern has no other regex syntax: between the anchors \<open>^\<close> and \<open>$\<close>, a sequence of
  atoms (the dot, an escaped syntax character, a plain character), each optionally
  followed by a star. A source outside the fragment is not interpreted (\<open>None\<close>).
\<close>

datatype regex_atom = AnyChar | Lit char

datatype regex_token = TAtom regex_atom | TStar | TStart | TEnd | TOther

datatype regex_item = One regex_atom | Star regex_atom

definition syntax_char :: "char \<Rightarrow> bool" where
  "syntax_char c = (c \<in> set ''^$.*+?()[]{}|/'' \<or> c = CHR 0x5C)"

definition token_of :: "char \<Rightarrow> regex_token" where
  "token_of c =
     (if c = CHR ''.'' then TAtom AnyChar
      else if c = CHR ''*'' then TStar
      else if c = CHR ''^'' then TStart
      else if c = CHR ''$'' then TEnd
      else if syntax_char c \<and> c \<noteq> CHR ''/'' then TOther
      else TAtom (Lit c))"

fun regex_tokens :: "string \<Rightarrow> regex_token list option" where
  "regex_tokens [] = Some []"
| "regex_tokens [c] = (if c = CHR 0x5C then None else Some [token_of c])"
| "regex_tokens (c # d # rest) =
     (if c = CHR 0x5C
      then (if syntax_char d then map_option (Cons (TAtom (Lit d))) (regex_tokens rest) else None)
      else map_option (Cons (token_of c)) (regex_tokens (d # rest)))"

fun regex_items :: "regex_token list \<Rightarrow> regex_item list option" where
  "regex_items [] = None"
| "regex_items [TEnd] = Some []"
| "regex_items (TAtom a # TStar # ts) = map_option (Cons (Star a)) (regex_items ts)"
| "regex_items (TAtom a # ts) = map_option (Cons (One a)) (regex_items ts)"
| "regex_items (t # ts) = None"

definition regex_compile :: "string \<Rightarrow> regex_item list option" where
  "regex_compile src =
     (case regex_tokens src of
        Some (TStart # ts) \<Rightarrow> regex_items ts
      | _ \<Rightarrow> None)"

text \<open>The dot matches every character but a line terminator.\<close>

fun atom_matches :: "regex_atom \<Rightarrow> char \<Rightarrow> bool" where
  "atom_matches AnyChar c = (c \<noteq> CHR 0x0A \<and> c \<noteq> CHR 0x0D)"
| "atom_matches (Lit d) c = (c = d)"

fun items_match :: "regex_item list \<Rightarrow> string \<Rightarrow> bool" where
  "items_match [] s = (s = [])"
| "items_match (One a # its) s =
     (case s of [] \<Rightarrow> False | c # cs \<Rightarrow> atom_matches a c \<and> items_match its cs)"
| "items_match (Star a # its) s =
     (items_match its s \<or>
      (case s of [] \<Rightarrow> False | c # cs \<Rightarrow> atom_matches a c \<and> items_match (Star a # its) cs))"

definition regex_test :: "string \<Rightarrow> string \<Rightarrow> bool option" where
  "regex_test src s = map_option (\<lambda>its. items_match its s) (regex_compile src)"

definition matchesPattern :: "string \<Rightarrow> string \<Rightarrow> bool option" where
  "matchesPattern path pat = regex_test (pattern_regex_source pat) path"

text \<open>
  \<open>isAllowed\<close> on the rules that \<open>getRules\<close> returns for the URL's origin and on the
  URL's path: no rules means allowed; otherwise the matching rules are sorted by
  descending pattern length (the sort is stable) and the first decides, or nothing
  matches and the URL is allowed.
\<close>

datatype robots_failure = InvalidUrl | PatternNotInterpreted

definition allowed_by_rules :: "RobotsRule list \<Rightarrow> string \<Rightarrow> robots_failure + bool" where
  "allowed_by_rules rules path =
     (if rules = [] then Inr True
      else if list_ex (\<lambda>rule. matchesPattern path (pattern rule) = None) rules
           then Inl PatternNotInterpreted
      else (case sort_key (\<lambda>rule. - int (length (pattern rule)))
                   (filter (\<lambda>rule. matchesPattern path (pattern rule) = Some True) rules) of
              [] \<Rightarrow> Inr True
            | matchingRule # _ \<Rightarrow> Inr (allow matchingRule)))"

definition isAllowed ::
  "url_parser \<Rightarrow> (string \<Rightarrow> RobotsRule list) \<Rightarrow> string \<Rightarrow> robots_failure + bool" where
  "isAllowed parse getRules url =
     (case parse url of
        None \<Rightarrow> Inl InvalidUrl
      | Some parsed \<Rightarrow> allowed_by_rules (getRules (origin parsed)) (pathname parsed))"

subsection \<open>RateLimiter, the per-domain token bucket (scraper/src/utils/priority-queue.ts)\<close>

text \<open>
  JavaScript numbers are IEEE doubles. The model computes with the integers only, and
  only where the doubles compute with them exactly; see \<open>acquire_step\<close>. A number is an
  integer, or \<open>NaN\<close>, or any other number (one with a fraction, an infinity), with which
  the model does not compute. A value read from the \<open>limits\<close> object is a number or a
  member that every object inherits from \<open>Object.prototype\<close>, a function or an object.
\<close>

datatype js_number = Exact int | NaN | Inexact

datatype js_value = Number js_number | Inherited


record TokenBucket =
  tokens :: js_value
  lastRefill :: js_number

text \<open>
  What the model knows of a bucket in the map: its two fields, or nothing, once a pass
  over the bucket has left the arithmetic that the model follows.
\<close>

datatype bucket_state = Bucket TokenBucket | Untracked

text \<open>
  \<open>buckets\<close> is a \<open>Map\<close>. \<open>limits\<close> is a plain object, of which the field \<open>limits\<close> holds
  the own properties; \<open>defaultLimit\<close> is a number.
\<close>

record RateLimiter =
  buckets :: "string \<Rightarrow> bucket_state option"
  limits :: "string \<Rightarrow> js_number option"
  defaultLimit :: js_number













text \<open>
  \<open>updateLimit\<close>. The assignment \<open>this.limits[domain] = limit\<close> of a number makes or
  changes an own property, except under the name \<open>__proto__\<close> when that is not an own
  property: there the assignment sets the prototype, and a number is ignored.
\<close>

definition updateLimit :: "RateLimiter \<Rightarrow> string \<Rightarrow> js_number \<Rightarrow> RateLimiter" where
  "updateLimit rl domain limit =
     rl\<lparr>limits := (if domain = ''__proto__'' \<and> limits rl domain = None
                    then limits rl
                    else (limits rl)(domain \<mapsto> limit)),
        buckets := (buckets rl)(domain := None)\<rparr>"








section \<open>Verified properties\<close>

subsection \<open>PriorityQueue\<close>

lemma set_insert_node: "set (insert_node n xs) = insert n (set xs)"
  by (induction xs) auto

lemma length_insert_node: "length (insert_node n xs) = Suc (length xs)"
  by (induction xs) auto

lemma by_priority_insert_node: "by_priority xs \<Longrightarrow> by_priority (insert_node n xs)"
  unfolding by_priority_def
  by (induction xs) (auto simp: set_insert_node)

lemma by_priority_tl: "by_priority xs \<Longrightarrow> by_priority (tl xs)"
  unfolding by_priority_def by (cases xs) auto

lemma by_priority_apply_op: "by_priority (items q) \<Longrightarrow> by_priority (items (apply_op q x))"
  by (cases x) (auto simp: enqueue_def dequeue_def by_priority_insert_node by_priority_tl)

lemma maxSize_apply_op: "maxSize (apply_op q x) = maxSize q"
  by (cases x) (auto simp: enqueue_def dequeue_def)

lemma by_priority_run_ops: "by_priority (items q) \<Longrightarrow> by_priority (items (run_ops q ops))"
  unfolding run_ops_def
  by (induction ops arbitrary: q) (auto simp: by_priority_apply_op)

lemma maxSize_run_ops: "maxSize (run_ops q ops) = maxSize q"
  unfolding run_ops_def
  by (induction ops arbitrary: q) (auto simp: maxSize_apply_op)

lemma by_priority_hd_least:
  "by_priority xs \<Longrightarrow> xs \<noteq> [] \<Longrightarrow> m \<in> set xs \<Longrightarrow> priority (hd xs) \<le> priority m"
  unfolding by_priority_def by (cases xs) auto

text \<open>
  C1. After any sequence of enqueue and dequeue operations on a freshly constructed
  queue, \<open>dequeue\<close> returns empty exactly when nothing is queued, and otherwise removes
  one entry and returns its payload, and that entry's priority number is minimal among
  all entries queued at that moment. Enqueuing priorities 3, 1, 2 in that order and
  dequeuing three times yields the payloads in the order 1, 2, 3.
\<close>

theorem dequeue_returns_minimum:
  "dequeue_takes_minimum (run_ops (new_queue n) ops)
   \<and> (let q0 = new_queue 5 :: string PriorityQueue;
          q1 = snd (enqueue q0 ''low'' 3);
          q2 = snd (enqueue q1 ''high'' 1);
          q3 = snd (enqueue q2 ''medium'' 2);
          r1 = dequeue q3; r2 = dequeue (snd r1); r3 = dequeue (snd r2)
      in [fst r1, fst r2, fst r3] = [Some ''high'', Some ''medium'', Some ''low'']
         \<and> fst (dequeue (snd r3)) = None)"
proof -
  define q where "q = run_ops (new_queue n) ops"
  have srt: "by_priority (items q)"
    unfolding q_def by (rule by_priority_run_ops) (simp add: new_queue_def by_priority_def)
  have "dequeue_takes_minimum q"
  proof (cases "items q = []")
    case True
    then show ?thesis
      by (simp add: dequeue_takes_minimum_def dequeue_def isEmpty_def)
  next
    case False
    let ?node = "hd (items q)"
    have "?node \<in> set (items q)" using False by simp
    moreover have "fst (dequeue q) = Some (data ?node)"
      using False by (simp add: dequeue_def isEmpty_def)
    moreover have "snd (dequeue q) = q\<lparr>items := remove1 ?node (items q)\<rparr>"
      using False by (cases "items q") (simp_all add: dequeue_def isEmpty_def)
    moreover have "\<forall>m \<in> set (items q). priority ?node \<le> priority m"
      using by_priority_hd_least [OF srt False] by blast
    ultimately show ?thesis
      using False unfolding dequeue_takes_minimum_def by auto
  qed
  moreover have "(let q0 = new_queue 5 :: string PriorityQueue;
          q1 = snd (enqueue q0 ''low'' 3);
          q2 = snd (enqueue q1 ''high'' 1);
          q3 = snd (enqueue q2 ''medium'' 2);
          r1 = dequeue q3; r2 = dequeue (snd r1); r3 = dequeue (snd r2)
      in [fst r1, fst r2, fst r3] = [Some ''high'', Some ''medium'', Some ''low'']
         \<and> fst (dequeue (snd r3)) = None)"
    by (simp add: new_queue_def enqueue_def dequeue_def isEmpty_def Let_def)
  ultimately show ?thesis unfolding q_def by blast
qed

theorem dequeue_returns_minimum_witness:
  "items (run_ops (new_queue 5) [Enq ''low'' 3, Enq ''high'' 1, Deq, Enq ''medium'' 2])
     = [\<lparr>data = ''medium'', priority = 2\<rparr>, \<lparr>data = ''low'', priority = 3\<rparr>]
   \<and> dequeue_takes_minimum
       (run_ops (new_queue 5) [Enq ''low'' 3, Enq ''high'' 1, Deq, Enq ''medium'' 2])"
  using dequeue_returns_minimum [of 5 "[Enq ''low'' 3, Enq ''high'' 1, Deq, Enq ''medium'' 2]"]
  by (simp add: run_ops_def new_queue_def enqueue_def dequeue_def isEmpty_def)

lemma size_apply_op: "size_q q \<le> maxSize q \<Longrightarrow> size_q (apply_op q x) \<le> maxSize q"
  by (cases x) (auto simp: size_q_def enqueue_def dequeue_def length_insert_node)

lemma size_run_ops: "size_q q \<le> maxSize q \<Longrightarrow> size_q (run_ops q ops) \<le> maxSize q"
proof (induction ops arbitrary: q)
  case Nil
  then show ?case by (simp add: run_ops_def)
next
  case (Cons x ops)
  have "size_q (apply_op q x) \<le> maxSize (apply_op q x)"
    using Cons.prems by (simp add: size_apply_op maxSize_apply_op)
  from Cons.IH [OF this] show ?case
    by (simp add: run_ops_def maxSize_apply_op)
qed

text \<open>
  C2. On a queue constructed with capacity \<open>maxSize\<close>, after any sequence of operations
  (in particular any sequence of enqueues, failed ones included) the size is at most
  \<open>maxSize\<close>; an enqueue attempted while the size equals \<open>maxSize\<close> fails with the
  queue-full error and leaves the queue as it was.
\<close>

theorem enqueue_respects_capacity:
  "size_q (run_ops (new_queue n) ops) \<le> n
   \<and> (size_q q = maxSize q \<longrightarrow> enqueue q d p = (Inl QueueFull, q))"
proof -
  have "size_q (run_ops (new_queue n) ops) \<le> maxSize (new_queue n :: 'a PriorityQueue)"
    by (rule size_run_ops) (simp add: size_q_def new_queue_def)
  then have "size_q (run_ops (new_queue n) ops) \<le> n"
    by (simp add: new_queue_def)
  moreover have "size_q q = maxSize q \<longrightarrow> enqueue q d p = (Inl QueueFull, q)"
    by (simp add: enqueue_def size_q_def)
  ultimately show ?thesis by blast
qed

theorem enqueue_respects_capacity_witness:
  "size_q (run_ops (new_queue 2) [Enq ''a'' 1, Enq ''b'' 0]) = maxSize (run_ops (new_queue 2) [Enq ''a'' 1, Enq ''b'' 0])
   \<and> size_q (run_ops (new_queue 2) [Enq ''a'' 1, Enq ''b'' 0, Enq ''c'' 0]) = 2
   \<and> enqueue (run_ops (new_queue 2) [Enq ''a'' 1, Enq ''b'' 0]) ''c'' 0
       = (Inl QueueFull, \<lparr>items = [\<lparr>data = ''b'', priority = 0\<rparr>, \<lparr>data = ''a'', priority = 1\<rparr>], maxSize = 2\<rparr>)"
  using enqueue_respects_capacity
    [of 2 "[Enq ''a'' 1, Enq ''b'' 0, Enq ''c'' 0]" "run_ops (new_queue 2) [Enq ''a'' 1, Enq ''b'' 0]" "''c''" 0]
  by (simp add: run_ops_def new_queue_def enqueue_def size_q_def)

subsection \<open>UrlManager\<close>


lemma enqueue_url_noop:
  "\<not> shouldEnqueue parse um url \<Longrightarrow> enqueue_url parse um url p = (Inr (), um)"
  by (simp add: enqueue_url_def)






subsection \<open>JobManager\<close>

lemma find_upd_first:
  "j_id job = i \<Longrightarrow>
   find (\<lambda>j. j_id j = k) (upd_first (\<lambda>j. j_id j = i) (\<lambda>_. job) jobs)
     = (if k = i \<and> list_ex (\<lambda>j. j_id j = i) jobs then Some job else find (\<lambda>j. j_id j = k) jobs)"
  by (induction jobs) auto

lemma find_append_single:
  "find P (xs @ [x]) = (case find P xs of Some y \<Rightarrow> Some y | None \<Rightarrow> if P x then Some x else None)"
  by (induction xs) auto

lemma find_None_list_ex: "(find P xs = None) = (\<not> list_ex P xs)"
  by (induction xs) auto

lemma get_job_put_job:
  "get_job (put_job job jobs) k = (if k = j_id job then Some job else get_job jobs k)"
proof (cases "list_ex (\<lambda>j. j_id j = j_id job) jobs")
  case True
  then show ?thesis
    by (simp add: get_job_def put_job_def find_upd_first)
next
  case False
  then have none: "find (\<lambda>j. j_id j = j_id job) jobs = None"
    by (simp add: find_None_list_ex)
  show ?thesis
    using False none
    by (auto simp: get_job_def put_job_def find_append_single split: option.splits)
qed

lemma get_job_id: "get_job jobs k = Some job \<Longrightarrow> j_id job = k"
  unfolding get_job_def by (induction jobs) (auto split: if_splits)

lemma activeJobs_loop_head: "activeJobs (loop_head st) = activeJobs st"
  by (simp add: loop_head_def split: prod.splits)

lemma activeJobs_startProcessing: "activeJobs (startProcessing st) = activeJobs st"
  by (simp add: startProcessing_def activeJobs_loop_head)

lemma pauseJob_status:
  "getJobStatus (pauseJob st jobId) k =
     (case get_job (activeJobs st) jobId of
        None \<Rightarrow> getJobStatus st k
      | Some job \<Rightarrow> if j_status job = StRunning \<and> k = jobId then Some (job\<lparr>j_status := StPaused\<rparr>)
                    else getJobStatus st k)"
  by (auto simp: pauseJob_def getJobStatus_def emit_def get_job_put_job dest: get_job_id split: option.splits)

lemma resumeJob_status:
  "getJobStatus (resumeJob st jobId) k =
     (case get_job (activeJobs st) jobId of
        None \<Rightarrow> getJobStatus st k
      | Some job \<Rightarrow> if j_status job = StPaused \<and> k = jobId then Some (job\<lparr>j_status := StRunning\<rparr>)
                    else getJobStatus st k)"
  by (auto simp: resumeJob_def getJobStatus_def emit_def get_job_put_job activeJobs_startProcessing Let_def
      dest: get_job_id split: option.splits)

text \<open>
  C10. On a job whose status is completed or failed, \<open>pauseJob\<close> and \<open>resumeJob\<close> change
  nothing at all: the whole scheduler state, the emitted events included, is as before.
  Whenever \<open>pauseJob\<close> changes the status of any job, that job is the one named, it was
  running and it is now paused; whenever \<open>resumeJob\<close> changes a status, the job is the
  one named, it was paused and it is now running.
\<close>

theorem pause_resume_terminal_jobs:
  "(get_job (activeJobs st) jobId = Some job \<and> (j_status job = StCompleted \<or> j_status job = StFailed)
      \<longrightarrow> pauseJob st jobId = st \<and> resumeJob st jobId = st)
   \<and> (map_option j_status (getJobStatus (pauseJob st jobId) k) \<noteq> map_option j_status (getJobStatus st k)
      \<longrightarrow> k = jobId \<and> map_option j_status (getJobStatus st k) = Some StRunning
          \<and> map_option j_status (getJobStatus (pauseJob st jobId) k) = Some StPaused)
   \<and> (map_option j_status (getJobStatus (resumeJob st jobId) k) \<noteq> map_option j_status (getJobStatus st k)
      \<longrightarrow> k = jobId \<and> map_option j_status (getJobStatus st k) = Some StPaused
          \<and> map_option j_status (getJobStatus (resumeJob st jobId) k) = Some StRunning)"
proof -
  have a: "get_job (activeJobs st) jobId = Some job \<and> (j_status job = StCompleted \<or> j_status job = StFailed)
      \<longrightarrow> pauseJob st jobId = st \<and> resumeJob st jobId = st"
    by (auto simp: pauseJob_def resumeJob_def)
  have b: "map_option j_status (getJobStatus (pauseJob st jobId) k) \<noteq> map_option j_status (getJobStatus st k)
      \<longrightarrow> k = jobId \<and> map_option j_status (getJobStatus st k) = Some StRunning
          \<and> map_option j_status (getJobStatus (pauseJob st jobId) k) = Some StPaused"
    unfolding pauseJob_status
    by (auto simp: getJobStatus_def split: option.splits if_splits)
  have c: "map_option j_status (getJobStatus (resumeJob st jobId) k) \<noteq> map_option j_status (getJobStatus st k)
      \<longrightarrow> k = jobId \<and> map_option j_status (getJobStatus st k) = Some StPaused
          \<and> map_option j_status (getJobStatus (resumeJob st jobId) k) = Some StRunning"
    unfolding resumeJob_status
    by (auto simp: getJobStatus_def split: option.splits if_splits)
  from a b c show ?thesis by blast
qed

theorem pause_resume_terminal_jobs_witness:
  "map_option j_status (get_job (activeJobs demo_late_completion) ''job-1'') = Some StCompleted
   \<and> pauseJob demo_late_completion ''job-1'' = demo_late_completion
   \<and> resumeJob demo_late_completion ''job-1'' = demo_late_completion
   \<and> map_option j_status (getJobStatus demo_in_flight ''job-1'') = Some StRunning
   \<and> map_option j_status (getJobStatus (pauseJob demo_in_flight ''job-1'') ''job-1'') = Some StPaused
   \<and> map_option j_status (getJobStatus (resumeJob (pauseJob demo_in_flight ''job-1'') ''job-1'') ''job-1'')
       = Some StRunning"
proof -
  let ?job = "\<lparr>j_id = ''job-1'',
      tasks = [\<lparr>t_id = ''task-1'', t_url = ''https://a.test'', t_priority = 1,
                retryCount = 0, maxRetries = 3, t_status = TsCompleted, t_timestamp = ''t0''\<rparr>],
      completedTasks = 1, failedTasks = 0, startTime = ''t0'',
      endTime = Some ''t2'', j_status = StCompleted\<rparr>"
  have g: "get_job (activeJobs demo_late_completion) ''job-1'' = Some ?job"
    by code_simp
  have t: "pauseJob demo_late_completion ''job-1'' = demo_late_completion
      \<and> resumeJob demo_late_completion ''job-1'' = demo_late_completion"
    using pause_resume_terminal_jobs [where st = demo_late_completion and jobId = "''job-1''" and job = ?job]
      g by simp
  have r: "map_option j_status (getJobStatus demo_in_flight ''job-1'') = Some StRunning"
    by code_simp
  have p: "map_option j_status (getJobStatus (pauseJob demo_in_flight ''job-1'') ''job-1'') = Some StPaused"
    by code_simp
  have p': "map_option j_status (getJobStatus (pauseJob demo_in_flight ''job-1'') ''job-1'')
      \<noteq> map_option j_status (getJobStatus demo_in_flight ''job-1'')"
    by (simp add: r p)
  have q: "map_option j_status (getJobStatus (resumeJob (pauseJob demo_in_flight ''job-1'') ''job-1'') ''job-1'')
      = Some StRunning"
    by code_simp
  have q': "map_option j_status (getJobStatus (resumeJob (pauseJob demo_in_flight ''job-1'') ''job-1'') ''job-1'')
      \<noteq> map_option j_status (getJobStatus (pauseJob demo_in_flight ''job-1'') ''job-1'')"
    by (simp add: p q)
  from pause_resume_terminal_jobs [where st = demo_in_flight and jobId = "''job-1''" and k = "''job-1''"] p'
  have "map_option j_status (getJobStatus (pauseJob demo_in_flight ''job-1'') ''job-1'') = Some StPaused"
    by blast
  moreover from pause_resume_terminal_jobs
    [where st = "pauseJob demo_in_flight ''job-1''" and jobId = "''job-1''" and k = "''job-1''"] q'
  have "map_option j_status (getJobStatus (resumeJob (pauseJob demo_in_flight ''job-1'') ''job-1'') ''job-1'')
      = Some StRunning"
    by blast
  ultimately show ?thesis using g t r by simp
qed

lemma updateTaskCompletion_job:
  assumes "findJobByTask st tid = Some job"
  shows "getJobStatus (updateTaskCompletion st tid ok now) (j_id job) =
     Some (let job1 = (if ok then job\<lparr>completedTasks := completedTasks job + 1\<rparr>
                       else job\<lparr>failedTasks := failedTasks job + 1\<rparr>)
           in if completedTasks job1 + failedTasks job1 = length (tasks job1)
              then job1\<lparr>j_status := (if failedTasks job1 = 0 then StCompleted else StFailed),
                        endTime := Some now\<rparr>
              else job1)"
  using assms
  by (simp add: updateTaskCompletion_def getJobStatus_def emit_def get_job_put_job Let_def)

text \<open>
  C6, as the code has it. \<open>cancelJob\<close> on an existing job sets the status to failed and
  fills \<open>endTime\<close> at once, emits \<open>jobCancelled\<close>, and touches neither the frontier nor
  the loop (a task in flight stays in flight). The completion of a task is applied to
  its job whatever the job's status: one of the two counters grows by one. Status and
  \<open>endTime\<close> stay as they are (failed, for a cancelled job) as long as the counters do
  not account for every task of the job.
\<close>

theorem cancelJob_and_late_completion:
  "(get_job (activeJobs st) jobId = Some job \<longrightarrow>
      getJobStatus (cancelJob st jobId now) jobId = Some (job\<lparr>j_status := StFailed, endTime := Some now\<rparr>)
      \<and> emitted (cancelJob st jobId now) = emitted st @ [EvJobCancelled jobId]
      \<and> urlManager (cancelJob st jobId now) = urlManager st
      \<and> loop (cancelJob st jobId now) = loop st
      \<and> isRunning (cancelJob st jobId now) = isRunning st)
   \<and> (findJobByTask st tid = Some job \<longrightarrow>
        (\<exists>job'. getJobStatus (updateTaskCompletion st tid ok now) (j_id job) = Some job'
           \<and> completedTasks job' = completedTasks job + (if ok then 1 else 0)
           \<and> failedTasks job' = failedTasks job + (if ok then 0 else 1)
           \<and> tasks job' = tasks job
           \<and> (completedTasks job' + failedTasks job' \<noteq> length (tasks job)
                \<longrightarrow> j_status job' = j_status job \<and> endTime job' = endTime job)))"
proof -
  have a: "get_job (activeJobs st) jobId = Some job \<longrightarrow>
      getJobStatus (cancelJob st jobId now) jobId = Some (job\<lparr>j_status := StFailed, endTime := Some now\<rparr>)
      \<and> emitted (cancelJob st jobId now) = emitted st @ [EvJobCancelled jobId]
      \<and> urlManager (cancelJob st jobId now) = urlManager st
      \<and> loop (cancelJob st jobId now) = loop st
      \<and> isRunning (cancelJob st jobId now) = isRunning st"
    by (auto simp: cancelJob_def getJobStatus_def emit_def get_job_put_job dest: get_job_id)
  have b: "findJobByTask st tid = Some job \<longrightarrow>
        (\<exists>job'. getJobStatus (updateTaskCompletion st tid ok now) (j_id job) = Some job'
           \<and> completedTasks job' = completedTasks job + (if ok then 1 else 0)
           \<and> failedTasks job' = failedTasks job + (if ok then 0 else 1)
           \<and> tasks job' = tasks job
           \<and> (completedTasks job' + failedTasks job' \<noteq> length (tasks job)
                \<longrightarrow> j_status job' = j_status job \<and> endTime job' = endTime job))"
  proof
    assume f: "findJobByTask st tid = Some job"
    show "\<exists>job'. getJobStatus (updateTaskCompletion st tid ok now) (j_id job) = Some job'
           \<and> completedTasks job' = completedTasks job + (if ok then 1 else 0)
           \<and> failedTasks job' = failedTasks job + (if ok then 0 else 1)
           \<and> tasks job' = tasks job
           \<and> (completedTasks job' + failedTasks job' \<noteq> length (tasks job)
                \<longrightarrow> j_status job' = j_status job \<and> endTime job' = endTime job)"
      unfolding updateTaskCompletion_job [OF f]
      by (cases ok) (simp_all add: Let_def)
  qed
  from a b show ?thesis by blast
qed

theorem cancelJob_and_late_completion_witness:
  "map_option j_status (getJobStatus pair_in_flight ''job-2'') = Some StRunning
   \<and> map_option j_status (getJobStatus (cancelJob pair_in_flight ''job-2'' ''t1'') ''job-2'') = Some StFailed
   \<and> map_option endTime (getJobStatus (cancelJob pair_in_flight ''job-2'' ''t1'') ''job-2'') = Some (Some ''t1'')
   \<and> loop (cancelJob pair_in_flight ''job-2'' ''t1'') = LoopInTask ''task-1''
   \<and> map_option j_status (getJobStatus (updateTaskCompletion pair_cancelled ''task-1'' True ''t2'') ''job-2'')
       = Some StFailed
   \<and> map_option completedTasks (getJobStatus (updateTaskCompletion pair_cancelled ''task-1'' True ''t2'') ''job-2'')
       = Some 1"
proof -
  define job where "job = the (get_job (activeJobs pair_in_flight) ''job-2'')"
  define job2 where "job2 = the (findJobByTask pair_cancelled ''task-1'')"
  have g: "get_job (activeJobs pair_in_flight) ''job-2'' = Some job"
    unfolding job_def by code_simp
  have l: "loop pair_in_flight = LoopInTask ''task-1''"
    by code_simp
  have r: "j_status job = StRunning"
    unfolding job_def by code_simp
  have f: "findJobByTask pair_cancelled ''task-1'' = Some job2"
    unfolding job2_def by code_simp
  have j2: "j_id job2 = ''job-2''" "j_status job2 = StFailed" "completedTasks job2 = 0"
      "failedTasks job2 = 0" "length (tasks job2) = 2"
    unfolding job2_def by code_simp+
  note c = cancelJob_and_late_completion [where st = pair_in_flight and jobId = "''job-2''"
      and job = job and now = "''t1''" and tid = "''none''"]
  note u = cancelJob_and_late_completion [where st = pair_cancelled and tid = "''task-1''"
      and job = job2 and ok = True and now = "''t2''" and jobId = "''none''"]
  have "map_option j_status (getJobStatus (updateTaskCompletion pair_cancelled ''task-1'' True ''t2'') ''job-2'')
       = Some StFailed
     \<and> map_option completedTasks (getJobStatus (updateTaskCompletion pair_cancelled ''task-1'' True ''t2'') ''job-2'')
       = Some 1"
    using u f j2 by auto
  then show ?thesis
    using c g l r by (simp add: getJobStatus_def)
qed

text \<open>
  The run that refutes C6 as stated: the job is cancelled while its only task is in
  flight, which makes it failed; the task then completes, and the job is completed.
\<close>

theorem cancelled_job_becomes_completed:
  "loop demo_cancelled = LoopInTask ''task-1''
   \<and> map_option j_status (getJobStatus demo_cancelled ''job-1'') = Some StFailed
   \<and> map_option j_status (getJobStatus demo_late_completion ''job-1'') = Some StCompleted
   \<and> map_option completedTasks (getJobStatus demo_late_completion ''job-1'') = Some 1
   \<and> map_option (map t_status \<circ> tasks) (getJobStatus demo_late_completion ''job-1'') = Some [TsCompleted]"
  by code_simp

lemma urlManager_mutate_task: "urlManager (mutate_task tid f st) = urlManager st"
  by (simp add: mutate_task_def)

lemma retry_enqueue_noop_when_visited:
  assumes "lookup_task st tid = Some task" and "retryCount task < maxRetries task"
    and "isVisited parse (urlManager st) (t_url task)"
  shows "urlManager (snd (processTask_end parse st tid False now)) = urlManager st"
proof -
  have "\<not> shouldEnqueue parse (urlManager st) (t_url task)"
    using assms(3) by (simp add: shouldEnqueue_def isVisited_def)
  then have "enqueue_url parse (urlManager st) (t_url task) (t_priority task) = (Inr (), urlManager st)"
    by (rule enqueue_url_noop)
  then show ?thesis
    using assms(1,2)
    by (simp add: processTask_end_def urlManager_mutate_task Let_def updateTask_def emit_def
        split: option.splits)
qed

text \<open>
  C7 on the code. The pipeline of the only task of a started job fails once, with
  retries left: the retry count goes from 0 to 1 and the task is pending again, but the
  frontier's queue holds nothing, since the URL's key is in the visited set and the
  re-enqueue is dropped. The loop then finds the queue empty at every round: sleeping and
  polling brings it back to the same state.
\<close>

theorem retry_reenqueue_is_dropped:
  "lookup_task demo_in_flight ''task-1'' =
      Some \<lparr>t_id = ''task-1'', t_url = ''https://a.test'', t_priority = 1,
            retryCount = 0, maxRetries = 3, t_status = TsProcessing, t_timestamp = ''t0''\<rparr>
   \<and> lookup_task demo_failed_once ''task-1'' =
      Some \<lparr>t_id = ''task-1'', t_url = ''https://a.test'', t_priority = 1,
            retryCount = 1, maxRetries = 3, t_status = TsPending, t_timestamp = ''t0''\<rparr>
   \<and> items (queue (urlManager demo_failed_once)) = []
   \<and> isVisited parse_simple_url (urlManager demo_failed_once) ''https://a.test''
   \<and> loop demo_failed_once = LoopDequeued None
   \<and> loop (loop_resume demo_failed_once) = LoopSleeping
   \<and> loop (loop_resume (loop_resume demo_failed_once)) = LoopDequeued None
   \<and> activeJobs (loop_resume (loop_resume demo_failed_once)) = activeJobs demo_failed_once
   \<and> items (queue (urlManager (loop_resume (loop_resume demo_failed_once)))) = []"
  by code_simp

subsection \<open>Crawler\<close>

lemma crawl_try_rejected:
  assumes "url_parse env url = Some parsed"
    and "robotsTxtEnforcement pol \<longrightarrow> robots_answer env (robots_checks tr)"
    and "client env (http_calls tr) = Rejected e"
  shows "crawl_try pol env url tr =
     (Inl e, tr\<lparr>robots_checks := robots_checks tr + (if robotsTxtEnforcement pol then 1 else 0),
                acquired := acquired tr @ [hostname parsed],
                http_calls := http_calls tr + 1\<rparr>)"
  using assms by (simp add: crawl_try_def Let_def)

lemma crawl_try_resolved:
  assumes "url_parse env url = Some parsed"
    and "robotsTxtEnforcement pol \<longrightarrow> robots_answer env (robots_checks tr)"
    and "client env (http_calls tr) = Resolved response"
  shows "\<exists>result. crawl_try pol env url tr =
     (Inr result, tr\<lparr>robots_checks := robots_checks tr + (if robotsTxtEnforcement pol then 1 else 0),
                acquired := acquired tr @ [hostname parsed],
                http_calls := http_calls tr + 1\<rparr>)
     \<and> statusCode result = resp_status response \<and> content result = resp_data response
     \<and> cr_url result = url"
  using assms by (simp add: crawl_try_def Let_def)

text \<open>
  When at least one retry is configured and every request is rejected with a retryable
  error, no depth of recursion is enough for \<open>crawl\<close> to return: with depth \<open>n\<close> it has
  made \<open>n\<close> requests, each preceded by the delay of retry number 0, and is still going.
\<close>

lemma crawl_never_returns:
  assumes pos: "0 < retryAttempts cfg"
    and parse: "url_parse env url = Some parsed"
    and robots: "robotsTxtEnforcement pol \<longrightarrow> (\<forall>k. robots_answer env k)"
    and fails: "\<forall>k. \<exists>e. client env k = Rejected e \<and> isRetryableError e"
  shows "fst (crawl n cfg pol env url tr) = None
       \<and> http_calls (snd (crawl n cfg pol env url tr)) = http_calls tr + n
       \<and> slept (snd (crawl n cfg pol env url tr)) = slept tr @ replicate n (getRetryDelay cfg 0)"
proof (induction n arbitrary: tr)
  case 0
  show ?case by simp
next
  case (Suc n)
  from fails obtain e where e: "client env (http_calls tr) = Rejected e" "isRetryableError e"
    by blast
  let ?tr1 = "tr\<lparr>robots_checks := robots_checks tr + (if robotsTxtEnforcement pol then 1 else 0),
                acquired := acquired tr @ [hostname parsed],
                http_calls := http_calls tr + 1\<rparr>"
  let ?tr2 = "?tr1\<lparr>slept := slept ?tr1 @ [getRetryDelay cfg 0]\<rparr>"
  have t: "crawl_try pol env url tr = (Inl e, ?tr1)"
    using crawl_try_rejected [OF parse _ e(1)] robots by blast
  have step: "crawl (Suc n) cfg pol env url tr = handleRetry (\<lambda>t. crawl n cfg pol env url t) cfg 0 e ?tr1"
    using t e(2) by simp
  have ih: "fst (crawl n cfg pol env url ?tr2) = None"
    using Suc.IH [of ?tr2] by blast
  then obtain tr' where r: "crawl n cfg pol env url ?tr2 = (None, tr')"
    by (cases "crawl n cfg pol env url ?tr2") auto
  have "handleRetry (\<lambda>t. crawl n cfg pol env url t) cfg 0 e ?tr1 = (None, tr')"
    using pos r by (subst handleRetry.simps) simp
  then have eq: "crawl (Suc n) cfg pol env url tr = crawl n cfg pol env url ?tr2"
    using step r by simp
  show ?case
    unfolding eq using Suc.IH [of ?tr2] by (simp add: replicate_append_same)
qed

text \<open>
  C4 on the code. With the test suite's configuration (three retry attempts, base delay
  1000 ms) and a connection that is reset at every request, \<open>crawl\<close> has not returned at
  any recursion depth \<open>n\<close>: by then it has made \<open>n\<close> HTTP requests, more than the four
  that one attempt and three retries allow as soon as \<open>n\<close> exceeds 4, and every delay
  slept was 1000 ms, the delay of retry number 0.
\<close>

theorem crawl_retries_without_bound:
  "fst (crawl n test_config test_policy (env_server (NetworkFailure ''ECONNRESET''))
          ''https://example.com'' trace0) = None
   \<and> http_calls (snd (crawl n test_config test_policy (env_server (NetworkFailure ''ECONNRESET''))
          ''https://example.com'' trace0)) = n
   \<and> slept (snd (crawl n test_config test_policy (env_server (NetworkFailure ''ECONNRESET''))
          ''https://example.com'' trace0)) = replicate n 1000"
proof -
  have pos: "0 < retryAttempts test_config"
    by (simp add: test_config_def)
  have parse: "url_parse (env_server (NetworkFailure ''ECONNRESET'')) ''https://example.com''
      = Some \<lparr>origin = ''https://example.com'', hostname = ''example.com'', pathname = ''/'',
               search = '''', hash = ''''\<rparr>"
    by (simp add: env_server_def parse_simple_url_def Let_def)
  have robots: "robotsTxtEnforcement test_policy \<longrightarrow>
      (\<forall>k. robots_answer (env_server (NetworkFailure ''ECONNRESET'')) k)"
    by (simp add: env_server_def)
  have fails: "\<forall>k. \<exists>e. client (env_server (NetworkFailure ''ECONNRESET'')) k = Rejected e \<and> isRetryableError e"
    by (simp add: env_server_def axios_settle_def isRetryableError_def)
  have d: "getRetryDelay test_config 0 = 1000"
    by (simp add: getRetryDelay_def test_config_def)
  show ?thesis
    using crawl_never_returns [OF pos parse robots fails, of n trace0]
    by (simp add: d trace0_def)
qed

text \<open>
  C5, as the code has it. The client accepts every status below 500. When the server
  answers a request with such a status (404 and every other 4xx included), \<open>crawl\<close>
  returns a result carrying that status and the body after this one request, without any
  retry or delay. Only a rejection by the client itself with an error that has a
  response below 500 and none of the three retryable codes, which this client never
  produces for a server reply, is rethrown at once as \<open>HTTP status: text\<close>, also after
  one request.
\<close>

theorem crawl_status_below_500:
  assumes "url_parse env url = Some parsed"
    and "robotsTxtEnforcement pol \<longrightarrow> robots_answer env (robots_checks tr)"
  shows "(client env (http_calls tr) = axios_settle (ServerReply response) \<and> resp_status response < 500
          \<longrightarrow> (\<exists>result tr'. crawl (Suc n) cfg pol env url tr = (Some (Inr result), tr')
                 \<and> statusCode result = resp_status response
                 \<and> content result = resp_data response
                 \<and> http_calls tr' = http_calls tr + 1
                 \<and> slept tr' = slept tr))
       \<and> (client env (http_calls tr) = Rejected e \<and> err_response e = Some (status, statusText)
            \<and> status < 500 \<and> err_code e \<notin> {Some ''ECONNRESET'', Some ''ETIMEDOUT'', Some ''ECONNREFUSED''}
          \<longrightarrow> (\<exists>tr'. crawl (Suc n) cfg pol env url tr
                        = (Some (Inl \<lparr>err_code = None, err_response = None,
                                      err_message = HttpMsg status statusText\<rparr>), tr')
                 \<and> http_calls tr' = http_calls tr + 1
                 \<and> slept tr' = slept tr))"
proof -
  have a: "client env (http_calls tr) = axios_settle (ServerReply response) \<and> resp_status response < 500
          \<longrightarrow> (\<exists>result tr'. crawl (Suc n) cfg pol env url tr = (Some (Inr result), tr')
                 \<and> statusCode result = resp_status response
                 \<and> content result = resp_data response
                 \<and> http_calls tr' = http_calls tr + 1
                 \<and> slept tr' = slept tr)"
  proof
    assume h: "client env (http_calls tr) = axios_settle (ServerReply response) \<and> resp_status response < 500"
    then have "client env (http_calls tr) = Resolved response"
      by (simp add: axios_settle_def validateStatus_def)
    from crawl_try_resolved [OF assms this]
    obtain result where r: "crawl_try pol env url tr =
        (Inr result, tr\<lparr>robots_checks := robots_checks tr + (if robotsTxtEnforcement pol then 1 else 0),
                acquired := acquired tr @ [hostname parsed],
                http_calls := http_calls tr + 1\<rparr>)"
      "statusCode result = resp_status response" "content result = resp_data response"
      by blast
    show "\<exists>result tr'. crawl (Suc n) cfg pol env url tr = (Some (Inr result), tr')
                 \<and> statusCode result = resp_status response
                 \<and> content result = resp_data response
                 \<and> http_calls tr' = http_calls tr + 1
                 \<and> slept tr' = slept tr"
      using r by simp
  qed
  have b: "client env (http_calls tr) = Rejected e \<and> err_response e = Some (status, statusText)
            \<and> status < 500 \<and> err_code e \<notin> {Some ''ECONNRESET'', Some ''ETIMEDOUT'', Some ''ECONNREFUSED''}
          \<longrightarrow> (\<exists>tr'. crawl (Suc n) cfg pol env url tr
                        = (Some (Inl \<lparr>err_code = None, err_response = None,
                                      err_message = HttpMsg status statusText\<rparr>), tr')
                 \<and> http_calls tr' = http_calls tr + 1
                 \<and> slept tr' = slept tr)"
  proof
    assume h: "client env (http_calls tr) = Rejected e \<and> err_response e = Some (status, statusText)
            \<and> status < 500 \<and> err_code e \<notin> {Some ''ECONNRESET'', Some ''ETIMEDOUT'', Some ''ECONNREFUSED''}"
    then have rej: "client env (http_calls tr) = Rejected e" by blast
    have nr: "\<not> isRetryableError e"
      using h by (simp add: isRetryableError_def)
    have ne: "normalizeError e = \<lparr>err_code = None, err_response = None, err_message = HttpMsg status statusText\<rparr>"
      using h by (simp add: normalizeError_def)
    show "\<exists>tr'. crawl (Suc n) cfg pol env url tr
                        = (Some (Inl \<lparr>err_code = None, err_response = None,
                                      err_message = HttpMsg status statusText\<rparr>), tr')
                 \<and> http_calls tr' = http_calls tr + 1
                 \<and> slept tr' = slept tr"
      using crawl_try_rejected [OF assms rej] nr ne by simp
  qed
  from a b show ?thesis by blast
qed

theorem crawl_status_below_500_witness:
  "url_parse (env_server reply_404) ''https://example.com''
      = Some \<lparr>origin = ''https://example.com'', hostname = ''example.com'', pathname = ''/'',
               search = '''', hash = ''''\<rparr>
   \<and> robots_answer (env_server reply_404) (robots_checks trace0)
   \<and> (\<exists>result tr'. crawl (Suc 0) test_config test_policy (env_server reply_404) ''https://example.com'' trace0
          = (Some (Inr result), tr')
        \<and> statusCode result = 404 \<and> content result = ''missing'' \<and> http_calls tr' = 1 \<and> slept tr' = [])
   \<and> (\<exists>tr'. crawl (Suc 0) test_config test_policy
               ((env_server reply_404)\<lparr>client := (\<lambda>k. Rejected \<lparr>err_code = None,
                    err_response = Some (404, ''Not Found''), err_message = Msg ''mock''\<rparr>)\<rparr>)
               ''https://example.com'' trace0
          = (Some (Inl \<lparr>err_code = None, err_response = None, err_message = HttpMsg 404 ''Not Found''\<rparr>), tr')
        \<and> http_calls tr' = 1 \<and> slept tr' = [])"
proof -
  let ?p = "\<lparr>origin = ''https://example.com'', hostname = ''example.com'', pathname = ''/'',
               search = '''', hash = ''''\<rparr>"
  let ?r = "\<lparr>resp_status = 404, resp_statusText = ''Not Found'',
             resp_data = ''missing'', resp_headers = [(''content-type'', ''text/html'')]\<rparr>"
  let ?e = "\<lparr>err_code = None, err_response = Some (404, ''Not Found''), err_message = Msg ''mock''\<rparr>"
  let ?env2 = "(env_server reply_404)\<lparr>client := (\<lambda>k. Rejected ?e)\<rparr>"
  have parse: "url_parse (env_server reply_404) ''https://example.com'' = Some ?p"
    by (simp add: env_server_def parse_simple_url_def Let_def)
  have parse2: "url_parse ?env2 ''https://example.com'' = Some ?p"
    by (simp add: env_server_def parse_simple_url_def Let_def)
  have robots: "robotsTxtEnforcement test_policy \<longrightarrow> robots_answer (env_server reply_404) (robots_checks trace0)"
    by (simp add: env_server_def)
  have robots2: "robotsTxtEnforcement test_policy \<longrightarrow> robots_answer ?env2 (robots_checks trace0)"
    by (simp add: env_server_def)
  have c1: "client (env_server reply_404) (http_calls trace0) = axios_settle (ServerReply ?r) \<and> resp_status ?r < 500"
    by (simp add: env_server_def reply_404_def)
  have c2: "client ?env2 (http_calls trace0) = Rejected ?e \<and> err_response ?e = Some (404, ''Not Found'')
      \<and> (404::int) < 500 \<and> err_code ?e \<notin> {Some ''ECONNRESET'', Some ''ETIMEDOUT'', Some ''ECONNREFUSED''}"
    by simp
  have a: "\<exists>result tr'. crawl (Suc 0) test_config test_policy (env_server reply_404) ''https://example.com'' trace0
          = (Some (Inr result), tr')
        \<and> statusCode result = 404 \<and> content result = ''missing'' \<and> http_calls tr' = 1 \<and> slept tr' = []"
    using crawl_status_below_500 [OF parse robots, where response = ?r and n = 0 and cfg = test_config] c1
    by (simp add: trace0_def)
  have b: "\<exists>tr'. crawl (Suc 0) test_config test_policy ?env2 ''https://example.com'' trace0
          = (Some (Inl \<lparr>err_code = None, err_response = None, err_message = HttpMsg 404 ''Not Found''\<rparr>), tr')
        \<and> http_calls tr' = 1 \<and> slept tr' = []"
    using crawl_status_below_500 [OF parse2 robots2, where e = ?e and status = 404
        and statusText = "''Not Found''" and n = 0 and cfg = test_config] c2
    by (simp add: trace0_def)
  from parse robots a b show ?thesis
    by (simp add: test_policy_def)
qed

text \<open>
  The run that refutes C5 as stated: the server answers 404, and \<open>crawl\<close> returns a
  result with status code 404 after one request instead of failing.
\<close>

theorem crawl_404_is_returned:
  "map_option (map_sum err_message statusCode)
      (fst (crawl 1 test_config test_policy (env_server reply_404) ''https://example.com'' trace0))
     = Some (Inr 404)
   \<and> http_calls (snd (crawl 1 test_config test_policy (env_server reply_404) ''https://example.com'' trace0)) = 1
   \<and> slept (snd (crawl 1 test_config test_policy (env_server reply_404) ''https://example.com'' trace0)) = []"
  by (simp add: crawl_try_def env_server_def reply_404_def axios_settle_def validateStatus_def
      parse_simple_url_def test_policy_def trace0_def Let_def)

subsection \<open>RobotsParser\<close>

text \<open>
  The selection of the effective rule: when \<open>allowed_by_rules\<close> answers, either no rule
  matches the path and the answer is allowed, or the answer is the flag of a matching
  rule whose pattern is at least as long as that of every matching rule.
\<close>

lemma allowed_by_rules_longest:
  assumes "allowed_by_rules rules path = Inr b"
  shows "((\<forall>r \<in> set rules. matchesPattern path (pattern r) \<noteq> Some True) \<and> b)
       \<or> (\<exists>r \<in> set rules. matchesPattern path (pattern r) = Some True \<and> b = allow r
            \<and> (\<forall>r' \<in> set rules. matchesPattern path (pattern r') = Some True
                  \<longrightarrow> length (pattern r') \<le> length (pattern r)))"
proof -
  let ?key = "\<lambda>rule. - int (length (pattern rule))"
  let ?ms = "filter (\<lambda>rule. matchesPattern path (pattern rule) = Some True) rules"
  show ?thesis
  proof (cases "sort_key ?key ?ms")
    case Nil
    then have "set ?ms = {}"
      by (metis set_sort list.set(1))
    then have none: "\<forall>r \<in> set rules. matchesPattern path (pattern r) \<noteq> Some True"
      by auto
    have "b" using assms Nil
      by (auto simp: allowed_by_rules_def split: if_splits)
    with none show ?thesis by blast
  next
    case (Cons m rest)
    have srt: "sorted (map ?key (sort_key ?key ?ms))"
      by (rule sorted_sort_key)
    have "set (sort_key ?key ?ms) = set ?ms"
      by (rule set_sort)
    then have sets: "set (m # rest) = set ?ms"
      using Cons by simp
    then have m_in: "m \<in> set rules" "matchesPattern path (pattern m) = Some True"
      by auto
    have least: "\<forall>r' \<in> set (m # rest). ?key m \<le> ?key r'"
      using srt unfolding Cons by auto
    have longest: "\<forall>r' \<in> set rules. matchesPattern path (pattern r') = Some True
        \<longrightarrow> length (pattern r') \<le> length (pattern m)"
    proof (intro ballI impI)
      fix r' assume "r' \<in> set rules" "matchesPattern path (pattern r') = Some True"
      then have "r' \<in> set (m # rest)" using sets by simp
      with least have "?key m \<le> ?key r'" by blast
      then show "length (pattern r') \<le> length (pattern m)" by simp
    qed
    have rules_ne: "rules \<noteq> []" using m_in(1) by auto
    have "b = allow m"
      using assms Cons rules_ne
      by (auto simp: allowed_by_rules_def split: if_splits)
    with m_in longest show ?thesis by blast
  qed
qed

text \<open>
  C9 on the code. For the pattern \<open>/*.php\<close> the expression built is
  \<open>^/\.*\.php.*$\<close>: the star has become a run of literal dots. The path \<open>/index.php\<close>
  does not match it, the path \<open>/..php\<close> does, and \<open>/axb\<close> does not match \<open>/a*b\<close>;
  under the single rule that disallows \<open>/*.php\<close> the URL \<open>https://x.com/index.php\<close>
  is allowed.
\<close>

theorem star_matches_only_dots:
  "pattern_regex_source ''/*.php''
     = [CHR ''^'', CHR ''/'', CHR 0x5C, CHR ''.'', CHR ''*'', CHR 0x5C, CHR ''.'',
        CHR ''p'', CHR ''h'', CHR ''p'', CHR ''.'', CHR ''*'', CHR ''$'']
   \<and> matchesPattern ''/index.php'' ''/*.php'' = Some False
   \<and> matchesPattern ''/..php'' ''/*.php'' = Some True
   \<and> matchesPattern ''/axb'' ''/a*b'' = Some False
   \<and> matchesPattern ''/private/x'' ''/private'' = Some True
   \<and> isAllowed parse_simple_url (\<lambda>origin. [\<lparr>pattern = ''/*.php'', allow = False\<rparr>])
        ''https://x.com/index.php'' = Inr True"
  by code_simp

subsection \<open>RateLimiter\<close>
























end
